theory Spec2Isabelle
  imports Main "HOL-Library.Char_ord" "HOL-Library.List_Lexorder"
begin

section \<open>Data model\<close>

text \<open>
  The two row shapes of \<^verbatim>\<open>src/lib/supabase.ts\<close>, repeated as the interfaces
  \<^verbatim>\<open>Command\<close> and \<^verbatim>\<open>UserProfile\<close> in \<^verbatim>\<open>pages/Commands.tsx\<close> and
  \<^verbatim>\<open>pages/Admin.tsx\<close>. Both start with the columns \<^verbatim>\<open>id\<close>, \<^verbatim>\<open>created_at\<close>
  and \<^verbatim>\<open>updated_at\<close>; they are the common part \<open>Row\<close>, so that the two records can
  keep the column names (\<^verbatim>\<open>id\<close> is written \<open>row_id\<close>, since \<open>id\<close> is the identity
  function of HOL). Timestamps are ISO strings.

  A JavaScript string is a sequence of UTF-16 code units, numbers from 0 to 65535:
  \<open>js_string\<close> is the list of them. The three fields that the catalog searches and the
  search term are of this type, since \<^verbatim>\<open>toLowerCase\<close> and \<^verbatim>\<open>includes\<close> work on the code
  units. Text that the pages only compare for equality or hand on (ids, timestamps,
  categories, messages) stays a \<open>string\<close>. \<open>utf16\<close> gives the code units of a literal.
\<close>

type_synonym js_string = "int list"

definition utf16 :: "string \<Rightarrow> js_string" where
  "utf16 s = map of_char s"

record Row =
  row_id :: string
  created_at :: string
  updated_at :: string

record Command = Row +
  name :: js_string
  description :: js_string
  command :: js_string
  category :: string
  created_by :: string
  is_active :: bool

record UserProfile = Row +
  email :: string
  full_name :: string
  is_admin :: bool

section \<open>The catalog filter (\<^verbatim>\<open>Commands.tsx\<close>, \<^verbatim>\<open>filterCommands\<close>)\<close>

text \<open>
  \<^verbatim>\<open>String.prototype.toLowerCase\<close> is the runtime's: it reads the string as code points
  (\<open>StringToCodePoints\<close>), maps each code point to its lowercase mapping of the Unicode
  Character Database (\<open>toLowercase\<close>, the locale-insensitive mappings of
  \<^verbatim>\<open>UnicodeData.txt\<close> and \<^verbatim>\<open>SpecialCasing.txt\<close>), and writes the code points back as code
  units (\<open>CodePointsToString\<close>). The tables are those of Unicode 14.0.

  The simple lowercase mappings, in runs \<open>(lo, hi, step, lo')\<close>, sorted: the code points
  \<open>lo\<close>, \<open>lo + step\<close>, ... up to \<open>hi\<close> go to \<open>lo'\<close>, \<open>lo' + step\<close>, ...; every code
  point in no run is its own lowercase.
\<close>

definition lowercase_segments :: "(int \<times> int \<times> int \<times> int) list" where
  "lowercase_segments =
    [(65, 90, 1, 97), (192, 214, 1, 224), (216, 222, 1, 248), (256, 302, 2, 257),
     (306, 310, 2, 307), (313, 327, 2, 314), (330, 374, 2, 331), (376, 376, 1, 255),
     (377, 381, 2, 378), (385, 385, 1, 595), (386, 388, 2, 387), (390, 390, 1, 596),
     (391, 391, 1, 392), (393, 394, 1, 598), (395, 395, 1, 396), (398, 398, 1, 477),
     (399, 399, 1, 601), (400, 400, 1, 603), (401, 401, 1, 402), (403, 403, 1, 608),
     (404, 404, 1, 611), (406, 406, 1, 617), (407, 407, 1, 616), (408, 408, 1, 409),
     (412, 412, 1, 623), (413, 413, 1, 626), (415, 415, 1, 629), (416, 420, 2, 417),
     (422, 422, 1, 640), (423, 423, 1, 424), (425, 425, 1, 643), (428, 428, 1, 429),
     (430, 430, 1, 648), (431, 431, 1, 432), (433, 434, 1, 650), (435, 437, 2, 436),
     (439, 439, 1, 658), (440, 440, 1, 441), (444, 444, 1, 445), (452, 452, 1, 454),
     (453, 453, 1, 454), (455, 455, 1, 457), (456, 456, 1, 457), (458, 458, 1, 460),
     (459, 475, 2, 460), (478, 494, 2, 479), (497, 497, 1, 499), (498, 500, 2, 499),
     (502, 502, 1, 405), (503, 503, 1, 447), (504, 542, 2, 505), (544, 544, 1, 414),
     (546, 562, 2, 547), (570, 570, 1, 11365), (571, 571, 1, 572), (573, 573, 1, 410),
     (574, 574, 1, 11366), (577, 577, 1, 578), (579, 579, 1, 384), (580, 580, 1, 649),
     (581, 581, 1, 652), (582, 590, 2, 583), (880, 882, 2, 881), (886, 886, 1, 887),
     (895, 895, 1, 1011), (902, 902, 1, 940), (904, 906, 1, 941), (908, 908, 1, 972),
     (910, 911, 1, 973), (913, 929, 1, 945), (931, 939, 1, 963), (975, 975, 1, 983),
     (984, 1006, 2, 985), (1012, 1012, 1, 952), (1015, 1015, 1, 1016),
     (1017, 1017, 1, 1010), (1018, 1018, 1, 1019), (1021, 1023, 1, 891),
     (1024, 1039, 1, 1104), (1040, 1071, 1, 1072), (1120, 1152, 2, 1121),
     (1162, 1214, 2, 1163), (1216, 1216, 1, 1231), (1217, 1229, 2, 1218),
     (1232, 1326, 2, 1233), (1329, 1366, 1, 1377), (4256, 4293, 1, 11520),
     (4295, 4295, 1, 11559), (4301, 4301, 1, 11565), (5024, 5103, 1, 43888),
     (5104, 5109, 1, 5112), (7312, 7354, 1, 4304), (7357, 7359, 1, 4349),
     (7680, 7828, 2, 7681), (7838, 7838, 1, 223), (7840, 7934, 2, 7841),
     (7944, 7951, 1, 7936), (7960, 7965, 1, 7952), (7976, 7983, 1, 7968),
     (7992, 7999, 1, 7984), (8008, 8013, 1, 8000), (8025, 8031, 2, 8017),
     (8040, 8047, 1, 8032), (8072, 8079, 1, 8064), (8088, 8095, 1, 8080),
     (8104, 8111, 1, 8096), (8120, 8121, 1, 8112), (8122, 8123, 1, 8048),
     (8124, 8124, 1, 8115), (8136, 8139, 1, 8050), (8140, 8140, 1, 8131),
     (8152, 8153, 1, 8144), (8154, 8155, 1, 8054), (8168, 8169, 1, 8160),
     (8170, 8171, 1, 8058), (8172, 8172, 1, 8165), (8184, 8185, 1, 8056),
     (8186, 8187, 1, 8060), (8188, 8188, 1, 8179), (8486, 8486, 1, 969),
     (8490, 8490, 1, 107), (8491, 8491, 1, 229), (8498, 8498, 1, 8526),
     (8544, 8559, 1, 8560), (8579, 8579, 1, 8580), (9398, 9423, 1, 9424),
     (11264, 11311, 1, 11312), (11360, 11360, 1, 11361), (11362, 11362, 1, 619),
     (11363, 11363, 1, 7549), (11364, 11364, 1, 637), (11367, 11371, 2, 11368),
     (11373, 11373, 1, 593), (11374, 11374, 1, 625), (11375, 11375, 1, 592),
     (11376, 11376, 1, 594), (11378, 11378, 1, 11379), (11381, 11381, 1, 11382),
     (11390, 11391, 1, 575), (11392, 11490, 2, 11393), (11499, 11501, 2, 11500),
     (11506, 11506, 1, 11507), (42560, 42604, 2, 42561), (42624, 42650, 2, 42625),
     (42786, 42798, 2, 42787), (42802, 42862, 2, 42803), (42873, 42875, 2, 42874),
     (42877, 42877, 1, 7545), (42878, 42886, 2, 42879), (42891, 42891, 1, 42892),
     (42893, 42893, 1, 613), (42896, 42898, 2, 42897), (42902, 42920, 2, 42903),
     (42922, 42922, 1, 614), (42923, 42923, 1, 604), (42924, 42924, 1, 609),
     (42925, 42925, 1, 620), (42926, 42926, 1, 618), (42928, 42928, 1, 670),
     (42929, 42929, 1, 647), (42930, 42930, 1, 669), (42931, 42931, 1, 43859),
     (42932, 42946, 2, 42933), (42948, 42948, 1, 42900), (42949, 42949, 1, 642),
     (42950, 42950, 1, 7566), (42951, 42953, 2, 42952), (42960, 42960, 1, 42961),
     (42966, 42968, 2, 42967), (42997, 42997, 1, 42998), (65313, 65338, 1, 65345),
     (66560, 66599, 1, 66600), (66736, 66771, 1, 66776), (66928, 66938, 1, 66967),
     (66940, 66954, 1, 66979), (66956, 66962, 1, 66995), (66964, 66965, 1, 67003),
     (68736, 68786, 1, 68800), (71840, 71871, 1, 71872), (93760, 93791, 1, 93792),
     (125184, 125217, 1, 125218)]"

fun simple_lowercase :: "(int \<times> int \<times> int \<times> int) list \<Rightarrow> int \<Rightarrow> int" where
  "simple_lowercase [] c = c"
| "simple_lowercase ((lo, hi, step, lo') # segs) c =
     (if c < lo then c
      else if c \<le> hi \<and> (c - lo) mod step = 0 then lo' + (c - lo)
      else simple_lowercase segs c)"

text \<open>
  The two mappings of \<^verbatim>\<open>SpecialCasing.txt\<close> that do not depend on a language. The
  capital I with dot above (U+0130) becomes \<^verbatim>\<open>i\<close> and a combining dot. The capital sigma
  (U+03A3) becomes the final small sigma under the condition \<^verbatim>\<open>Final_Sigma\<close>, when it
  comes after a cased letter and not before one, characters that are case-ignorable not
  counted; \<open>before\<close> holds the code points before it, the nearest first. The two properties
  \<^verbatim>\<open>Case_Ignorable\<close> and \<^verbatim>\<open>Cased\<close> are sorted lists of ranges.
\<close>

definition case_ignorable_ranges :: "(int \<times> int) list" where
  "case_ignorable_ranges =
    [(39, 39), (46, 46), (58, 58), (94, 94), (96, 96), (168, 168), (173, 173), (175, 175),
     (180, 180), (183, 184), (688, 879), (884, 885), (890, 890), (900, 901), (903, 903),
     (1155, 1161), (1369, 1369), (1375, 1375), (1425, 1469), (1471, 1471), (1473, 1474),
     (1476, 1477), (1479, 1479), (1524, 1524), (1536, 1541), (1552, 1562), (1564, 1564),
     (1600, 1600), (1611, 1631), (1648, 1648), (1750, 1757), (1759, 1768), (1770, 1773),
     (1807, 1807), (1809, 1809), (1840, 1866), (1958, 1968), (2027, 2037), (2042, 2042),
     (2045, 2045), (2070, 2093), (2137, 2139), (2184, 2184), (2192, 2193), (2200, 2207),
     (2249, 2306), (2362, 2362), (2364, 2364), (2369, 2376), (2381, 2381), (2385, 2391),
     (2402, 2403), (2417, 2417), (2433, 2433), (2492, 2492), (2497, 2500), (2509, 2509),
     (2530, 2531), (2558, 2558), (2561, 2562), (2620, 2620), (2625, 2626), (2631, 2632),
     (2635, 2637), (2641, 2641), (2672, 2673), (2677, 2677), (2689, 2690), (2748, 2748),
     (2753, 2757), (2759, 2760), (2765, 2765), (2786, 2787), (2810, 2815), (2817, 2817),
     (2876, 2876), (2879, 2879), (2881, 2884), (2893, 2893), (2901, 2902), (2914, 2915),
     (2946, 2946), (3008, 3008), (3021, 3021), (3072, 3072), (3076, 3076), (3132, 3132),
     (3134, 3136), (3142, 3144), (3146, 3149), (3157, 3158), (3170, 3171), (3201, 3201),
     (3260, 3260), (3263, 3263), (3270, 3270), (3276, 3277), (3298, 3299), (3328, 3329),
     (3387, 3388), (3393, 3396), (3405, 3405), (3426, 3427), (3457, 3457), (3530, 3530),
     (3538, 3540), (3542, 3542), (3633, 3633), (3636, 3642), (3654, 3662), (3761, 3761),
     (3764, 3772), (3782, 3782), (3784, 3789), (3864, 3865), (3893, 3893), (3895, 3895),
     (3897, 3897), (3953, 3966), (3968, 3972), (3974, 3975), (3981, 3991), (3993, 4028),
     (4038, 4038), (4141, 4144), (4146, 4151), (4153, 4154), (4157, 4158), (4184, 4185),
     (4190, 4192), (4209, 4212), (4226, 4226), (4229, 4230), (4237, 4237), (4253, 4253),
     (4348, 4348), (4957, 4959), (5906, 5908), (5938, 5939), (5970, 5971), (6002, 6003),
     (6068, 6069), (6071, 6077), (6086, 6086), (6089, 6099), (6103, 6103), (6109, 6109),
     (6155, 6159), (6211, 6211), (6277, 6278), (6313, 6313), (6432, 6434), (6439, 6440),
     (6450, 6450), (6457, 6459), (6679, 6680), (6683, 6683), (6742, 6742), (6744, 6750),
     (6752, 6752), (6754, 6754), (6757, 6764), (6771, 6780), (6783, 6783), (6823, 6823),
     (6832, 6862), (6912, 6915), (6964, 6964), (6966, 6970), (6972, 6972), (6978, 6978),
     (7019, 7027), (7040, 7041), (7074, 7077), (7080, 7081), (7083, 7085), (7142, 7142),
     (7144, 7145), (7149, 7149), (7151, 7153), (7212, 7219), (7222, 7223), (7288, 7293),
     (7376, 7378), (7380, 7392), (7394, 7400), (7405, 7405), (7412, 7412), (7416, 7417),
     (7468, 7530), (7544, 7544), (7579, 7679), (8125, 8125), (8127, 8129), (8141, 8143),
     (8157, 8159), (8173, 8175), (8189, 8190), (8203, 8207), (8216, 8217), (8228, 8228),
     (8231, 8231), (8234, 8238), (8288, 8292), (8294, 8303), (8305, 8305), (8319, 8319),
     (8336, 8348), (8400, 8432), (11388, 11389), (11503, 11505), (11631, 11631),
     (11647, 11647), (11744, 11775), (11823, 11823), (12293, 12293), (12330, 12333),
     (12337, 12341), (12347, 12347), (12441, 12446), (12540, 12542), (40981, 40981),
     (42232, 42237), (42508, 42508), (42607, 42610), (42612, 42621), (42623, 42623),
     (42652, 42655), (42736, 42737), (42752, 42785), (42864, 42864), (42888, 42890),
     (42994, 42996), (43000, 43001), (43010, 43010), (43014, 43014), (43019, 43019),
     (43045, 43046), (43052, 43052), (43204, 43205), (43232, 43249), (43263, 43263),
     (43302, 43309), (43335, 43345), (43392, 43394), (43443, 43443), (43446, 43449),
     (43452, 43453), (43471, 43471), (43493, 43494), (43561, 43566), (43569, 43570),
     (43573, 43574), (43587, 43587), (43596, 43596), (43632, 43632), (43644, 43644),
     (43696, 43696), (43698, 43700), (43703, 43704), (43710, 43711), (43713, 43713),
     (43741, 43741), (43756, 43757), (43763, 43764), (43766, 43766), (43867, 43871),
     (43881, 43883), (44005, 44005), (44008, 44008), (44013, 44013), (64286, 64286),
     (64434, 64450), (65024, 65039), (65043, 65043), (65056, 65071), (65106, 65106),
     (65109, 65109), (65279, 65279), (65287, 65287), (65294, 65294), (65306, 65306),
     (65342, 65342), (65344, 65344), (65392, 65392), (65438, 65439), (65507, 65507),
     (65529, 65531), (66045, 66045), (66272, 66272), (66422, 66426), (67456, 67461),
     (67463, 67504), (67506, 67514), (68097, 68099), (68101, 68102), (68108, 68111),
     (68152, 68154), (68159, 68159), (68325, 68326), (68900, 68903), (69291, 69292),
     (69446, 69456), (69506, 69509), (69633, 69633), (69688, 69702), (69744, 69744),
     (69747, 69748), (69759, 69761), (69811, 69814), (69817, 69818), (69821, 69821),
     (69826, 69826), (69837, 69837), (69888, 69890), (69927, 69931), (69933, 69940),
     (70003, 70003), (70016, 70017), (70070, 70078), (70089, 70092), (70095, 70095),
     (70191, 70193), (70196, 70196), (70198, 70199), (70206, 70206), (70367, 70367),
     (70371, 70378), (70400, 70401), (70459, 70460), (70464, 70464), (70502, 70508),
     (70512, 70516), (70712, 70719), (70722, 70724), (70726, 70726), (70750, 70750),
     (70835, 70840), (70842, 70842), (70847, 70848), (70850, 70851), (71090, 71093),
     (71100, 71101), (71103, 71104), (71132, 71133), (71219, 71226), (71229, 71229),
     (71231, 71232), (71339, 71339), (71341, 71341), (71344, 71349), (71351, 71351),
     (71453, 71455), (71458, 71461), (71463, 71467), (71727, 71735), (71737, 71738),
     (71995, 71996), (71998, 71998), (72003, 72003), (72148, 72151), (72154, 72155),
     (72160, 72160), (72193, 72202), (72243, 72248), (72251, 72254), (72263, 72263),
     (72273, 72278), (72281, 72283), (72330, 72342), (72344, 72345), (72752, 72758),
     (72760, 72765), (72767, 72767), (72850, 72871), (72874, 72880), (72882, 72883),
     (72885, 72886), (73009, 73014), (73018, 73018), (73020, 73021), (73023, 73029),
     (73031, 73031), (73104, 73105), (73109, 73109), (73111, 73111), (73459, 73460),
     (78896, 78904), (92912, 92916), (92976, 92982), (92992, 92995), (94031, 94031),
     (94095, 94111), (94176, 94177), (94179, 94180), (110576, 110579), (110581, 110587),
     (110589, 110590), (113821, 113822), (113824, 113827), (118528, 118573),
     (118576, 118598), (119143, 119145), (119155, 119170), (119173, 119179),
     (119210, 119213), (119362, 119364), (121344, 121398), (121403, 121452),
     (121461, 121461), (121476, 121476), (121499, 121503), (121505, 121519),
     (122880, 122886), (122888, 122904), (122907, 122913), (122915, 122916),
     (122918, 122922), (123184, 123197), (123566, 123566), (123628, 123631),
     (125136, 125142), (125252, 125259), (127995, 127999), (917505, 917505),
     (917536, 917631), (917760, 917999)]"

definition cased_ranges :: "(int \<times> int) list" where
  "cased_ranges =
    [(65, 90), (97, 122), (170, 170), (181, 181), (186, 186), (192, 214), (216, 246),
     (248, 442), (444, 447), (452, 659), (661, 696), (704, 705), (736, 740), (837, 837),
     (880, 883), (886, 887), (890, 893), (895, 895), (902, 902), (904, 906), (908, 908),
     (910, 929), (931, 1013), (1015, 1153), (1162, 1327), (1329, 1366), (1376, 1416),
     (4256, 4293), (4295, 4295), (4301, 4301), (4304, 4346), (4349, 4351), (5024, 5109),
     (5112, 5117), (7296, 7304), (7312, 7354), (7357, 7359), (7424, 7615), (7680, 7957),
     (7960, 7965), (7968, 8005), (8008, 8013), (8016, 8023), (8025, 8025), (8027, 8027),
     (8029, 8029), (8031, 8061), (8064, 8116), (8118, 8124), (8126, 8126), (8130, 8132),
     (8134, 8140), (8144, 8147), (8150, 8155), (8160, 8172), (8178, 8180), (8182, 8188),
     (8305, 8305), (8319, 8319), (8336, 8348), (8450, 8450), (8455, 8455), (8458, 8467),
     (8469, 8469), (8473, 8477), (8484, 8484), (8486, 8486), (8488, 8488), (8490, 8493),
     (8495, 8500), (8505, 8505), (8508, 8511), (8517, 8521), (8526, 8526), (8544, 8575),
     (8579, 8580), (9398, 9449), (11264, 11492), (11499, 11502), (11506, 11507),
     (11520, 11557), (11559, 11559), (11565, 11565), (42560, 42605), (42624, 42653),
     (42786, 42887), (42891, 42894), (42896, 42954), (42960, 42961), (42963, 42963),
     (42965, 42969), (42997, 42998), (43000, 43002), (43824, 43866), (43868, 43880),
     (43888, 43967), (64256, 64262), (64275, 64279), (65313, 65338), (65345, 65370),
     (66560, 66639), (66736, 66771), (66776, 66811), (66928, 66938), (66940, 66954),
     (66956, 66962), (66964, 66965), (66967, 66977), (66979, 66993), (66995, 67001),
     (67003, 67004), (67456, 67456), (67459, 67461), (67463, 67504), (67506, 67514),
     (68736, 68786), (68800, 68850), (71840, 71903), (93760, 93823), (119808, 119892),
     (119894, 119964), (119966, 119967), (119970, 119970), (119973, 119974),
     (119977, 119980), (119982, 119993), (119995, 119995), (119997, 120003),
     (120005, 120069), (120071, 120074), (120077, 120084), (120086, 120092),
     (120094, 120121), (120123, 120126), (120128, 120132), (120134, 120134),
     (120138, 120144), (120146, 120485), (120488, 120512), (120514, 120538),
     (120540, 120570), (120572, 120596), (120598, 120628), (120630, 120654),
     (120656, 120686), (120688, 120712), (120714, 120744), (120746, 120770),
     (120772, 120779), (122624, 122633), (122635, 122654), (125184, 125251),
     (127280, 127305), (127312, 127337), (127344, 127369)]"

fun in_ranges :: "(int \<times> int) list \<Rightarrow> int \<Rightarrow> bool" where
  "in_ranges [] c = False"
| "in_ranges ((lo, hi) # rs) c =
     (if c < lo then False else if c \<le> hi then True else in_ranges rs c)"

fun cased_after_ignorable :: "int list \<Rightarrow> bool" where
  "cased_after_ignorable [] = False"
| "cased_after_ignorable (c # cs) =
     (if in_ranges case_ignorable_ranges c then cased_after_ignorable cs
      else in_ranges cased_ranges c)"

definition Final_Sigma :: "int list \<Rightarrow> int list \<Rightarrow> bool" where
  "Final_Sigma before after =
     (cased_after_ignorable before \<and> \<not> cased_after_ignorable after)"

fun toLowercase :: "int list \<Rightarrow> int list \<Rightarrow> int list" where
  "toLowercase before [] = []"
| "toLowercase before (c # after) =
     (if c = 0x3A3 then [if Final_Sigma before after then 0x3C2 else 0x3C3]
      else if c = 0x130 then [0x69, 0x307]
      else [simple_lowercase lowercase_segments c]) @ toLowercase (c # before) after"

text \<open>
  A high surrogate followed by a low surrogate is one code point; any other code unit,
  a surrogate on its own too, is the code point of its own value.
\<close>

fun StringToCodePoints :: "js_string \<Rightarrow> int list" where
  "StringToCodePoints (u # v # us) =
     (if 0xD800 \<le> u \<and> u \<le> 0xDBFF \<and> 0xDC00 \<le> v \<and> v \<le> 0xDFFF
      then (0x10000 + (u - 0xD800) * 0x400 + (v - 0xDC00)) # StringToCodePoints us
      else u # StringToCodePoints (v # us))"
| "StringToCodePoints us = us"

fun CodePointsToString :: "int list \<Rightarrow> js_string" where
  "CodePointsToString [] = []"
| "CodePointsToString (c # cs) =
     (if c < 0x10000 then [c]
      else [0xD800 + (c - 0x10000) div 0x400, 0xDC00 + (c - 0x10000) mod 0x400])
     @ CodePointsToString cs"

definition toLowerCase :: "js_string \<Rightarrow> js_string" where
  "toLowerCase s = CodePointsToString (toLowercase [] (StringToCodePoints s))"

text \<open>
  \<^verbatim>\<open>s.startsWith(q)\<close>, and \<^verbatim>\<open>s.includes(q)\<close>: \<open>q\<close> occurs in \<open>s\<close> as a contiguous
  run (named \<open>includes_str\<close>, the plain name being a keyword of Isabelle).
\<close>

fun startsWith :: "js_string \<Rightarrow> js_string \<Rightarrow> bool" where
  "startsWith s [] = True"
| "startsWith [] (d # q) = False"
| "startsWith (c # s) (d # q) = (c = d \<and> startsWith s q)"

fun includes_str :: "js_string \<Rightarrow> js_string \<Rightarrow> bool" where
  "includes_str [] q = (q = [])"
| "includes_str (c # s) q = (startsWith (c # s) q \<or> includes_str s q)"

text \<open>
  \<^verbatim>\<open>filterCommands\<close> reads \<^verbatim>\<open>commands\<close>, \<^verbatim>\<open>searchTerm\<close> and \<^verbatim>\<open>selectedCategory\<close>
  from the component and stores its result with \<^verbatim>\<open>setFilteredCommands\<close>; here the three
  are arguments and the stored list is the result. A string is truthy when it is not empty.
\<close>

definition filterCommands :: "Command list \<Rightarrow> js_string \<Rightarrow> string \<Rightarrow> Command list" where
  "filterCommands commands searchTerm selectedCategory =
     (let filtered = commands;
          filtered =
            (if searchTerm \<noteq> [] then
               filter (\<lambda>cmd.
                   includes_str (toLowerCase (name cmd)) (toLowerCase searchTerm) \<or>
                   includes_str (toLowerCase (description cmd)) (toLowerCase searchTerm) \<or>
                   includes_str (toLowerCase (command cmd)) (toLowerCase searchTerm)) filtered
             else filtered);
          filtered =
            (if selectedCategory \<noteq> ''all'' then
               filter (\<lambda>cmd. category cmd = selectedCategory) filtered
             else filtered)
      in filtered)"

subsection \<open>The filter as the specification words it\<close>

text \<open>
  \<open>q\<close> is a substring of \<open>s\<close>; case-insensitively so when it is one after both are
  put in lower case, the lower case of Unicode. A command is included when its category matches the selector (or the
  selector is \<^verbatim>\<open>all\<close>) and the query is empty or a case-insensitive substring of the
  name, the description or the command text.
\<close>

definition is_substring :: "js_string \<Rightarrow> js_string \<Rightarrow> bool" where
  "is_substring q s = (\<exists>ps ss. s = ps @ q @ ss)"

definition ci_substring :: "js_string \<Rightarrow> js_string \<Rightarrow> bool" where
  "ci_substring q s = is_substring (toLowerCase q) (toLowerCase s)"


text \<open>Lower case on ASCII, as a table of its own: \<^verbatim>\<open>A\<close> to \<^verbatim>\<open>Z\<close> go to \<^verbatim>\<open>a\<close> to \<^verbatim>\<open>z\<close>.\<close>

definition ascii_lower :: "int \<Rightarrow> int" where
  "ascii_lower c = (if 65 \<le> c \<and> c \<le> 90 then c + 32 else c)"


section \<open>The hosted row store and the browser\<close>

text \<open>
  Everything outside the components' React state: the two tables of the hosted store, the
  requests it has received, and the browser's console and alert boxes. The store is not
  code of this repository; it is modelled as far as the pages use it. A request can be
  answered with an error (network, service, row-level security): \<open>faults\<close> is the script of
  the answers to the coming requests, \<open>True\<close> for an error, and an exhausted script means
  no more errors. A request answered with an error changes no row.
\<close>

datatype verb = Select | Insert | Update | Delete

datatype remote_error = ServiceError | NotSingleRow

record world =
  tbl_user_profiles :: "UserProfile list"
  tbl_commands :: "Command list"
  faults :: "bool list"
  requests :: "(string \<times> verb) list"
  console :: "string list"
  alerts :: "string list"

definition fault :: "world \<Rightarrow> bool" where
  "fault w = (case faults w of [] \<Rightarrow> False | f # fs \<Rightarrow> f)"

definition served :: "string \<Rightarrow> verb \<Rightarrow> world \<Rightarrow> world" where
  "served tbl v w = w\<lparr>faults := tl (faults w), requests := requests w @ [(tbl, v)]\<rparr>"

definition console_error :: "string \<Rightarrow> world \<Rightarrow> world" where
  "console_error msg w = w\<lparr>console := console w @ [msg]\<rparr>"

definition alert :: "string \<Rightarrow> world \<Rightarrow> world" where
  "alert msg w = w\<lparr>alerts := alerts w @ [msg]\<rparr>"

text \<open>\<^verbatim>\<open>.order('created_at', { ascending: false })\<close>\<close>

definition order_desc :: "('a Row_scheme) list \<Rightarrow> ('a Row_scheme) list" where
  "order_desc rows = rev (sort_key created_at rows)"

text \<open>\<^verbatim>\<open>.eq('id', x)\<close> and \<^verbatim>\<open>.neq('id', x)\<close>\<close>

datatype id_filter = Eq string | Neq string

fun matches :: "id_filter \<Rightarrow> 'a Row_scheme \<Rightarrow> bool" where
  "matches (Eq x) r = (row_id r = x)"
| "matches (Neq x) r = (row_id r \<noteq> x)"

text \<open>
  The payloads: \<^verbatim>\<open>Partial<Command>\<close> (the \<^verbatim>\<open>Update\<close> shape of \<^verbatim>\<open>supabase.ts\<close>), the
  \<^verbatim>\<open>Update\<close> shape of a user profile, and the form data of a new command
  (\<^verbatim>\<open>Omit<Command, 'id' | 'created_at' | 'updated_at' | 'created_by'>\<close>). An absent
  property is \<open>None\<close>.
\<close>

record Command_Update =
  upd_id :: "string option"
  upd_name :: "js_string option"
  upd_description :: "js_string option"
  upd_command :: "js_string option"
  upd_category :: "string option"
  upd_created_at :: "string option"
  upd_updated_at :: "string option"
  upd_created_by :: "string option"
  upd_is_active :: "bool option"

record UserProfile_Update =
  usr_id :: "string option"
  usr_email :: "string option"
  usr_full_name :: "string option"
  usr_is_admin :: "bool option"
  usr_created_at :: "string option"
  usr_updated_at :: "string option"

record commandData =
  new_name :: js_string
  new_description :: js_string
  new_command :: js_string
  new_category :: string
  new_is_active :: bool

definition no_Command_Update :: Command_Update where
  "no_Command_Update = \<lparr>upd_id = None, upd_name = None, upd_description = None,
     upd_command = None, upd_category = None, upd_created_at = None, upd_updated_at = None,
     upd_created_by = None, upd_is_active = None\<rparr>"

definition no_UserProfile_Update :: UserProfile_Update where
  "no_UserProfile_Update = \<lparr>usr_id = None, usr_email = None, usr_full_name = None,
     usr_is_admin = None, usr_created_at = None, usr_updated_at = None\<rparr>"

definition or_keep :: "'a option \<Rightarrow> 'a \<Rightarrow> 'a" where
  "or_keep v old = (case v of None \<Rightarrow> old | Some x \<Rightarrow> x)"

definition patch_Command :: "Command_Update \<Rightarrow> Command \<Rightarrow> Command" where
  "patch_Command u c =
     \<lparr>row_id = or_keep (upd_id u) (row_id c),
      created_at = or_keep (upd_created_at u) (created_at c),
      updated_at = or_keep (upd_updated_at u) (updated_at c),
      name = or_keep (upd_name u) (name c),
      description = or_keep (upd_description u) (description c),
      command = or_keep (upd_command u) (command c),
      category = or_keep (upd_category u) (category c),
      created_by = or_keep (upd_created_by u) (created_by c),
      is_active = or_keep (upd_is_active u) (is_active c)\<rparr>"

definition patch_UserProfile :: "UserProfile_Update \<Rightarrow> UserProfile \<Rightarrow> UserProfile" where
  "patch_UserProfile u p =
     \<lparr>row_id = or_keep (usr_id u) (row_id p),
      created_at = or_keep (usr_created_at u) (created_at p),
      updated_at = or_keep (usr_updated_at u) (updated_at p),
      email = or_keep (usr_email u) (email p),
      full_name = or_keep (usr_full_name u) (full_name p),
      is_admin = or_keep (usr_is_admin u) (is_admin p)\<rparr>"

subsection \<open>The requests the pages send\<close>

text \<open>\<^verbatim>\<open>from('user_profiles').select('*').order('created_at', { ascending: false })\<close>\<close>

definition select_user_profiles :: "world \<Rightarrow> (remote_error + UserProfile list) \<times> world" where
  "select_user_profiles w =
     (if fault w then Inl ServiceError else Inr (order_desc (tbl_user_profiles w)),
      served ''user_profiles'' Select w)"

text \<open>\<^verbatim>\<open>from('commands').select('*').order('created_at', { ascending: false })\<close>\<close>

definition select_commands :: "world \<Rightarrow> (remote_error + Command list) \<times> world" where
  "select_commands w =
     (if fault w then Inl ServiceError else Inr (order_desc (tbl_commands w)),
      served ''commands'' Select w)"

text \<open>\<^verbatim>\<open>from('commands').select('*').eq('is_active', true).order('created_at', ...)\<close>\<close>

definition select_active_commands :: "world \<Rightarrow> (remote_error + Command list) \<times> world" where
  "select_active_commands w =
     (if fault w then Inl ServiceError
      else Inr (order_desc (filter is_active (tbl_commands w))),
      served ''commands'' Select w)"

text \<open>
  \<^verbatim>\<open>from('commands').insert({...}).select().single()\<close>: the store gives the row its
  \<^verbatim>\<open>id\<close> and its two timestamps (\<open>new_id\<close>, \<open>now\<close>) and answers with the row.
\<close>

definition insert_command_single ::
  "string \<Rightarrow> string \<Rightarrow> commandData \<Rightarrow> string \<Rightarrow> world \<Rightarrow> (remote_error + Command) \<times> world" where
  "insert_command_single new_id now d creator w =
     (let row = \<lparr>row_id = new_id, created_at = now, updated_at = now, name = new_name d,
                 description = new_description d, command = new_command d,
                 category = new_category d, created_by = creator,
                 is_active = new_is_active d\<rparr>
      in if fault w then (Inl ServiceError, served ''commands'' Insert w)
         else (Inr row, (served ''commands'' Insert w)\<lparr>tbl_commands := tbl_commands w @ [row]\<rparr>))"

text \<open>
  \<^verbatim>\<open>from('commands').update(u).eq('id', x).select().single()\<close>: \<^verbatim>\<open>single()\<close> turns
  an answer of no row or of several rows into an error.
\<close>

definition update_command_single ::
  "Command_Update \<Rightarrow> string \<Rightarrow> world \<Rightarrow> (remote_error + Command) \<times> world" where
  "update_command_single u x w =
     (if fault w then (Inl ServiceError, served ''commands'' Update w)
      else (case filter (matches (Eq x)) (tbl_commands w) of
              [c] \<Rightarrow> (Inr (patch_Command u c),
                      (served ''commands'' Update w)\<lparr>tbl_commands :=
                         map (\<lambda>c. if matches (Eq x) c then patch_Command u c else c)
                           (tbl_commands w)\<rparr>)
            | _ \<Rightarrow> (Inl NotSingleRow, served ''commands'' Update w)))"

text \<open>\<^verbatim>\<open>from('commands').update(u).eq('id', x)\<close>\<close>

definition update_commands ::
  "Command_Update \<Rightarrow> id_filter \<Rightarrow> world \<Rightarrow> (remote_error + unit) \<times> world" where
  "update_commands u flt w =
     (if fault w then (Inl ServiceError, served ''commands'' Update w)
      else (Inr (), (served ''commands'' Update w)\<lparr>tbl_commands :=
              map (\<lambda>c. if matches flt c then patch_Command u c else c) (tbl_commands w)\<rparr>))"

text \<open>\<^verbatim>\<open>from('user_profiles').update(u).eq('id', x)\<close>, or with \<^verbatim>\<open>.neq('id', x)\<close>\<close>

definition update_user_profiles ::
  "UserProfile_Update \<Rightarrow> id_filter \<Rightarrow> world \<Rightarrow> (remote_error + unit) \<times> world" where
  "update_user_profiles u flt w =
     (if fault w then (Inl ServiceError, served ''user_profiles'' Update w)
      else (Inr (), (served ''user_profiles'' Update w)\<lparr>tbl_user_profiles :=
              map (\<lambda>p. if matches flt p then patch_UserProfile u p else p)
                (tbl_user_profiles w)\<rparr>))"

text \<open>\<^verbatim>\<open>from('commands').delete().neq('id', x)\<close>\<close>

definition delete_commands :: "id_filter \<Rightarrow> world \<Rightarrow> (remote_error + unit) \<times> world" where
  "delete_commands flt w =
     (if fault w then (Inl ServiceError, served ''commands'' Delete w)
      else (Inr (), (served ''commands'' Delete w)\<lparr>tbl_commands :=
              filter (\<lambda>c. \<not> matches flt c) (tbl_commands w)\<rparr>))"

section \<open>The catalog page (\<^verbatim>\<open>pages/Commands.tsx\<close>)\<close>

text \<open>
  The \<^verbatim>\<open>useState\<close> cells of the two pages. Both pages have \<^verbatim>\<open>commands\<close> and
  \<^verbatim>\<open>loading\<close>; they are the common part \<open>View\<close>. A handler is a function from the
  page's state and the world to the state and the world it leaves behind, once its promise
  has settled. \<^verbatim>\<open>useAuth().user\<close> comes from \<^verbatim>\<open>contexts/AuthContext\<close>; the handlers
  use its \<^verbatim>\<open>id\<close> only, so \<open>user\<close> is the optional id of who is signed in. The answers
  given to \<^verbatim>\<open>confirm\<close> and \<^verbatim>\<open>prompt\<close> and the value of
  \<^verbatim>\<open>new Date().toISOString()\<close> are arguments.
\<close>

record View =
  commands :: "Command list"
  loading :: bool

record Commands_state = View +
  filteredCommands :: "Command list"
  searchTerm :: js_string
  selectedCategory :: string
  showAddModal :: bool
  editingCommand :: "Command option"
  copiedId :: "string option"

definition Commands_init :: Commands_state where
  "Commands_init = \<lparr>commands = [], loading = True, filteredCommands = [], searchTerm = [],
     selectedCategory = ''all'', showAddModal = False, editingCommand = None,
     copiedId = None\<rparr>"

text \<open>
  \<^verbatim>\<open>setCommands\<close>, followed by the effect that depends on \<^verbatim>\<open>commands\<close>
  (\<^verbatim>\<open>useEffect(() => { filterCommands() }, [commands, searchTerm, selectedCategory])\<close>).
\<close>

definition setCommands :: "Command list \<Rightarrow> Commands_state \<Rightarrow> Commands_state" where
  "setCommands cs s =
     s\<lparr>commands := cs,
       filteredCommands := filterCommands cs (searchTerm s) (selectedCategory s)\<rparr>"

definition fetchCommands :: "Commands_state \<times> world \<Rightarrow> Commands_state \<times> world" where
  "fetchCommands = (\<lambda>(s, w).
     case select_active_commands w of
       (Inl error, w1) \<Rightarrow> (s\<lparr>loading := False\<rparr>, console_error ''Error fetching commands:'' w1)
     | (Inr data, w1) \<Rightarrow> ((setCommands data s)\<lparr>loading := False\<rparr>, w1))"

definition handleAddCommand ::
  "string option \<Rightarrow> string \<Rightarrow> string \<Rightarrow> commandData \<Rightarrow> Commands_state \<times> world
     \<Rightarrow> Commands_state \<times> world" where
  "handleAddCommand user new_id now d = (\<lambda>(s, w).
     case user of
       None \<Rightarrow> (s, w)
     | Some user_id \<Rightarrow>
         (case insert_command_single new_id now d user_id w of
            (Inl error, w1) \<Rightarrow> (s, console_error ''Error adding command:'' w1)
          | (Inr data, w1) \<Rightarrow>
              ((setCommands (data # commands s) s)\<lparr>showAddModal := False\<rparr>, w1)))"

definition handleUpdateCommand ::
  "string \<Rightarrow> string \<Rightarrow> Command_Update \<Rightarrow> Commands_state \<times> world
     \<Rightarrow> Commands_state \<times> world" where
  "handleUpdateCommand now x updates = (\<lambda>(s, w).
     case update_command_single (updates\<lparr>upd_updated_at := Some now\<rparr>) x w of
       (Inl error, w1) \<Rightarrow> (s, console_error ''Error updating command:'' w1)
     | (Inr data, w1) \<Rightarrow>
         ((setCommands (map (\<lambda>cmd. if row_id cmd = x then data else cmd) (commands s)) s)
            \<lparr>editingCommand := None\<rparr>, w1))"

definition handleDeleteCommand ::
  "bool \<Rightarrow> string \<Rightarrow> Commands_state \<times> world \<Rightarrow> Commands_state \<times> world" where
  "handleDeleteCommand confirmed x = (\<lambda>(s, w).
     if \<not> confirmed then (s, w)
     else
       (case update_commands (no_Command_Update\<lparr>upd_is_active := Some False\<rparr>) (Eq x) w of
          (Inl error, w1) \<Rightarrow> (s, console_error ''Error deleting command:'' w1)
        | (Inr u, w1) \<Rightarrow>
            (setCommands (filter (\<lambda>cmd. row_id cmd \<noteq> x) (commands s)) s, w1)))"

section \<open>The administration page (\<^verbatim>\<open>pages/Admin.tsx\<close>)\<close>

record AdminStats =
  totalUsers :: int
  totalCommands :: int
  activeCommands :: int
  adminUsers :: int

record Admin_state = View +
  activeTab :: string
  users :: "UserProfile list"
  stats :: AdminStats

definition Admin_init :: Admin_state where
  "Admin_init = \<lparr>commands = [], loading = True, activeTab = ''overview'', users = [],
     stats = \<lparr>totalUsers = 0, totalCommands = 0, activeCommands = 0, adminUsers = 0\<rparr>\<rparr>"

definition fetchData :: "Admin_state \<times> world \<Rightarrow> Admin_state \<times> world" where
  "fetchData = (\<lambda>(s, w).
     case select_user_profiles w of
       (Inl usersError, w1) \<Rightarrow>
         (s\<lparr>loading := False\<rparr>, console_error ''Error fetching admin data:'' w1)
     | (Inr usersData, w1) \<Rightarrow>
         (case select_commands w1 of
            (Inl commandsError, w2) \<Rightarrow>
              (s\<lparr>loading := False\<rparr>, console_error ''Error fetching admin data:'' w2)
          | (Inr commandsData, w2) \<Rightarrow>
              (s\<lparr>users := usersData, commands := commandsData,
                 stats := \<lparr>totalUsers = int (length usersData),
                            totalCommands = int (length commandsData),
                            activeCommands = int (length (filter is_active commandsData)),
                            adminUsers = int (length (filter is_admin usersData))\<rparr>,
                 loading := False\<rparr>, w2)))"

definition toggleUserAdmin ::
  "string \<Rightarrow> string \<Rightarrow> bool \<Rightarrow> Admin_state \<times> world \<Rightarrow> Admin_state \<times> world" where
  "toggleUserAdmin now userId isAdmin = (\<lambda>(s, w).
     case update_user_profiles
            (no_UserProfile_Update\<lparr>usr_is_admin := Some (\<not> isAdmin),
               usr_updated_at := Some now\<rparr>) (Eq userId) w of
       (Inl error, w1) \<Rightarrow> (s, console_error ''Error updating user admin status:'' w1)
     | (Inr u, w1) \<Rightarrow>
         (s\<lparr>users := map (\<lambda>user. if row_id user = userId
                                  then user\<lparr>is_admin := \<not> isAdmin\<rparr> else user) (users s)\<rparr>,
          w1))"

definition toggleCommandStatus ::
  "string \<Rightarrow> string \<Rightarrow> bool \<Rightarrow> Admin_state \<times> world \<Rightarrow> Admin_state \<times> world" where
  "toggleCommandStatus now commandId isActive = (\<lambda>(s, w).
     case update_commands
            (no_Command_Update\<lparr>upd_is_active := Some (\<not> isActive),
               upd_updated_at := Some now\<rparr>) (Eq commandId) w of
       (Inl error, w1) \<Rightarrow> (s, console_error ''Error updating command status:'' w1)
     | (Inr u, w1) \<Rightarrow>
         (s\<lparr>commands := map (\<lambda>cmd. if row_id cmd = commandId
                                    then cmd\<lparr>is_active := \<not> isActive\<rparr> else cmd) (commands s),
            stats := (stats s)\<lparr>activeCommands :=
                        activeCommands (stats s) + (if isActive then - 1 else 1)\<rparr>\<rparr>,
          w1))"

text \<open>
  The buttons of the two tables (lines 369 and 430): a click passes the \<^verbatim>\<open>id\<close> and the
  flag of the row the button is rendered for.
\<close>

definition click_toggleUserAdmin ::
  "string \<Rightarrow> UserProfile \<Rightarrow> Admin_state \<times> world \<Rightarrow> Admin_state \<times> world" where
  "click_toggleUserAdmin now user = toggleUserAdmin now (row_id user) (is_admin user)"

definition click_toggleCommandStatus ::
  "string \<Rightarrow> Command \<Rightarrow> Admin_state \<times> world \<Rightarrow> Admin_state \<times> world" where
  "click_toggleCommandStatus now cmd = toggleCommandStatus now (row_id cmd) (is_active cmd)"

text \<open>
  \<^verbatim>\<open>resetDatabase\<close>. \<open>confirm1\<close>, \<open>confirm2\<close> and \<open>typed\<close> are what the operator answers
  to the two \<^verbatim>\<open>confirm\<close> boxes and to the \<^verbatim>\<open>prompt\<close> (\<open>None\<close> when it is cancelled),
  should they be shown. \<^verbatim>\<open>user?.id\<close> of nobody is \<^verbatim>\<open>undefined\<close>, which the client
  writes into the filter as the word itself. The final \<^verbatim>\<open>fetchData()\<close> is not awaited
  by the source; the model runs it to its end.
\<close>

definition nil_uuid :: string where
  "nil_uuid = ''00000000-0000-0000-0000-000000000000''"

definition resetDatabase ::
  "string option \<Rightarrow> bool \<Rightarrow> bool \<Rightarrow> string option \<Rightarrow> Admin_state \<times> world
     \<Rightarrow> Admin_state \<times> world" where
  "resetDatabase user confirm1 confirm2 typed = (\<lambda>(s, w).
     if \<not> confirm1 then (s, w)
     else if \<not> confirm2 \<or> typed \<noteq> Some ''RESET'' then (s, w)
     else
       (case delete_commands (Neq nil_uuid) w of
          (Inl commandsError, w1) \<Rightarrow>
            (s, alert ''Error resetting database. Please try again.''
                  (console_error ''Error resetting database:'' w1))
        | (Inr u, w1) \<Rightarrow>
            (case update_user_profiles (no_UserProfile_Update\<lparr>usr_is_admin := Some False\<rparr>)
                    (Neq (case user of None \<Rightarrow> ''undefined'' | Some user_id \<Rightarrow> user_id)) w1 of
               (Inl usersError, w2) \<Rightarrow>
                 (s, alert ''Error resetting database. Please try again.''
                       (console_error ''Error resetting database:'' w2))
             | (Inr u, w2) \<Rightarrow> fetchData (s, alert ''Database reset successfully!'' w2))))"

section \<open>Example rows and worlds\<close>

definition ex_command :: "string \<Rightarrow> string \<Rightarrow> bool \<Rightarrow> Command" where
  "ex_command i cat active = \<lparr>row_id = i, created_at = i, updated_at = i,
     name = utf16 (''List '' @ i), description = utf16 (''about '' @ i),
     command = utf16 (''ls '' @ i), category = cat, created_by = ''u1'',
     is_active = active\<rparr>"

definition ex_user :: "string \<Rightarrow> bool \<Rightarrow> UserProfile" where
  "ex_user i admin = \<lparr>row_id = i, created_at = i, updated_at = i, email = i @ ''@example.org'',
     full_name = i, is_admin = admin\<rparr>"

definition ex_world :: "UserProfile list \<Rightarrow> Command list \<Rightarrow> bool list \<Rightarrow> world" where
  "ex_world us cs fs = \<lparr>tbl_user_profiles = us, tbl_commands = cs, faults = fs, requests = [],
     console = [], alerts = []\<rparr>"

text \<open>Five commands, the second and the fourth of them inactive.\<close>

definition ex_five :: "Command list" where
  "ex_five = [ex_command ''c1'' ''system'' True, ex_command ''c2'' ''network'' False,
     ex_command ''c3'' ''system'' True, ex_command ''c4'' ''database'' False,
     ex_command ''c5'' ''security'' True]"

text \<open>The administration page after its first fetch of the five, and after a click on the
  status toggle of the third.\<close>

definition ex_fetched :: "Admin_state \<times> world" where
  "ex_fetched = fetchData (Admin_init, ex_world [ex_user ''u1'' True] ex_five [])"

definition ex_toggled :: "Admin_state \<times> world" where
  "ex_toggled = click_toggleCommandStatus ''t1'' (ex_command ''c3'' ''system'' True) ex_fetched"

text \<open>The users table of the administration page with two users, after a click on
  the admin toggle of the second, and after a second click on it.\<close>

definition ex_two_users :: "UserProfile list" where
  "ex_two_users = [ex_user ''u1'' True, ex_user ''u2'' False]"

definition ex_users_page :: "Admin_state \<times> world" where
  "ex_users_page = (Admin_init\<lparr>users := ex_two_users\<rparr>, ex_world ex_two_users [] [])"

definition ex_promoted :: "Admin_state \<times> world" where
  "ex_promoted = click_toggleUserAdmin ''t1'' (ex_user ''u2'' False) ex_users_page"

definition ex_demoted :: "Admin_state \<times> world" where
  "ex_demoted = click_toggleUserAdmin ''t2'' (ex_user ''u2'' True) ex_promoted"

text \<open>The same page in a world that answers the first request and answers the second
  with an error, after a click on the admin toggle of the second user, and after a second
  click on it.\<close>

definition ex_users_page_flaky :: "Admin_state \<times> world" where
  "ex_users_page_flaky =
     (Admin_init\<lparr>users := ex_two_users\<rparr>, ex_world ex_two_users [] [False, True])"

definition ex_flaky_promoted :: "Admin_state \<times> world" where
  "ex_flaky_promoted = click_toggleUserAdmin ''t1'' (ex_user ''u2'' False) ex_users_page_flaky"

definition ex_flaky_again :: "Admin_state \<times> world" where
  "ex_flaky_again = click_toggleUserAdmin ''t2'' (ex_user ''u2'' True) ex_flaky_promoted"

text \<open>A world whose next request is answered with an error, and a catalog page.\<close>

definition ex_failing :: world where
  "ex_failing = ex_world ex_two_users ex_five [True]"

definition ex_catalog :: Commands_state where
  "ex_catalog = Commands_init\<lparr>commands := filter is_active ex_five\<rparr>"




text \<open>The administration page after its first fetch of the two users, and after a click
  on the admin toggle of the second.\<close>

definition ex_users_fetched :: "Admin_state \<times> world" where
  "ex_users_fetched = fetchData (Admin_init, ex_world ex_two_users [] [])"

definition ex_users_toggled :: "Admin_state \<times> world" where
  "ex_users_toggled = click_toggleUserAdmin ''t1'' (ex_user ''u2'' False) ex_users_fetched"

text \<open>The catalog page and the store of the five commands, and the two after the soft
  delete of the third command.\<close>

definition ex_catalog_world :: world where
  "ex_catalog_world = ex_world ex_two_users ex_five []"

definition ex_soft_deleted :: "Commands_state \<times> world" where
  "ex_soft_deleted = handleDeleteCommand True ''c3'' (ex_catalog, ex_catalog_world)"

text \<open>
  Two worlds for the database reset, each with two administrators. In the first every
  request is answered; in the second a command carries the all-zero id and the second
  request is answered with an error.
\<close>

definition ex_reset_ok_world :: world where
  "ex_reset_ok_world = ex_world [ex_user ''u1'' True, ex_user ''u2'' True]
     [ex_command ''c1'' ''system'' True, ex_command ''c2'' ''network'' False] []"

definition ex_reset_world :: world where
  "ex_reset_world = ex_world [ex_user ''u1'' True, ex_user ''u2'' True]
     [ex_command ''c1'' ''system'' True, ex_command nil_uuid ''system'' True] [False, True]"

section \<open>Properties of the catalog filter\<close>

subsection \<open>Lower case\<close>

text \<open>
  On ASCII text \<^verbatim>\<open>toLowerCase\<close> is the ASCII table, character by character. Beyond
  ASCII: an accented capital, the capital I with dot above that becomes two code units,
  the capital sigma at the end of a word and at its start, and a Deseret capital, which
  is a surrogate pair.
\<close>

lemma simple_lowercase_ascii:
  "c < 128 \<Longrightarrow> simple_lowercase lowercase_segments c = ascii_lower c"
  by (simp add: lowercase_segments_def ascii_lower_def)

lemma StringToCodePoints_ascii: "\<forall>u\<in>set s. u < 128 \<Longrightarrow> StringToCodePoints s = s"
  by (induction s rule: StringToCodePoints.induct) auto

lemma toLowercase_ascii:
  "\<forall>u\<in>set s. u < 128 \<Longrightarrow> toLowercase before s = map ascii_lower s"
  by (induction s arbitrary: before) (simp_all add: simple_lowercase_ascii)

lemma CodePointsToString_bmp: "\<forall>c\<in>set cs. c < 0x10000 \<Longrightarrow> CodePointsToString cs = cs"
  by (induction cs) simp_all

lemma toLowerCase_ascii:
  assumes "\<forall>u\<in>set s. u < 128"
  shows "toLowerCase s = map ascii_lower s"
proof -
  have "\<forall>c\<in>set (map ascii_lower s). c < 0x10000"
    using assms by (auto simp add: ascii_lower_def)
  then show ?thesis
    using assms
    by (simp add: toLowerCase_def StringToCodePoints_ascii toLowercase_ascii
        CodePointsToString_bmp del: set_map)
qed

lemma toLowerCase_examples:
  "toLowerCase [0xC9, 0x43, 0x4F, 0x4C, 0x45] = [0xE9, 0x63, 0x6F, 0x6C, 0x65]"
  "toLowerCase [0x130] = [0x69, 0x307]"
  "toLowerCase [0x391, 0x3A3] = [0x3B1, 0x3C2]"
  "toLowerCase [0x3A3, 0x391] = [0x3C3, 0x3B1]"
  "toLowerCase [0xD801, 0xDC00] = [0xD801, 0xDC28]"
  "toLowerCase (utf16 ''List c1'') = utf16 ''list c1''"
  by code_simp+

lemma ci_substring_ascii:
  assumes "\<forall>u\<in>set q. u < 128" and "\<forall>u\<in>set s. u < 128"
  shows "ci_substring q s \<longleftrightarrow> is_substring (map ascii_lower q) (map ascii_lower s)"
  using assms by (simp add: ci_substring_def toLowerCase_ascii)

subsection \<open>Substrings\<close>



text \<open>
  On ASCII text the case-insensitive substring of the specification is what the words
  say: some substring of \<open>s\<close> is \<open>q\<close> letter by letter, up to the case of the letters.
\<close>

lemma is_substring_map:
  "is_substring (map f q) (map f s) \<longleftrightarrow> (\<exists>t. is_substring t s \<and> map f t = map f q)"
proof
  assume "is_substring (map f q) (map f s)"
  then obtain ps ss where "map f s = ps @ map f q @ ss"
    unfolding is_substring_def by blast
  then have "\<exists>a r. s = a @ r \<and> ps = map f a \<and> map f q @ ss = map f r"
    by (simp only: map_eq_append_conv)
  then obtain a r where s: "s = a @ r" and "map f r = map f q @ ss"
    by auto
  then have "\<exists>t b. r = t @ b \<and> map f q = map f t \<and> ss = map f b"
    by (simp only: map_eq_append_conv)
  then obtain t b where r: "r = t @ b" and t: "map f t = map f q"
    by auto
  from s r have "is_substring t s" unfolding is_substring_def by blast
  with t show "\<exists>t. is_substring t s \<and> map f t = map f q" by blast
next
  assume "\<exists>t. is_substring t s \<and> map f t = map f q"
  then obtain t a b where "s = a @ t @ b" and "map f t = map f q"
    unfolding is_substring_def by blast
  then have "map f s = map f a @ map f q @ map f b" by simp
  then show "is_substring (map f q) (map f s)" unfolding is_substring_def by blast
qed

lemma ci_substring_ascii_some_substring:
  assumes "\<forall>u\<in>set q. u < 128" and "\<forall>u\<in>set s. u < 128"
  shows "ci_substring q s \<longleftrightarrow>
         (\<exists>t. is_substring t s \<and> map ascii_lower t = map ascii_lower q)"
  using assms by (simp add: ci_substring_ascii is_substring_map)


lemma set_filterCommands: "set (filterCommands L Q C) \<subseteq> set L"
  by (auto simp add: filterCommands_def)

text \<open>
  Claim C2. Filtering by query and category at once gives the same list as filtering by
  the query with the category \<^verbatim>\<open>all\<close> and then filtering the result by the category with
  the empty query: \<open>filter(L, Q, C) = filter(filter(L, Q, "all"), "", C)\<close>.
\<close>

theorem filterCommands_decomposition:
  "filterCommands L Q C = filterCommands (filterCommands L Q ''all'') [] C"
  by (simp add: filterCommands_def)


section \<open>The store and the fetches\<close>

lemma set_order_desc: "set (order_desc rows) = set rows"
  by (simp add: order_desc_def)

lemma length_order_desc: "length (order_desc rows) = length rows"
  by (simp add: order_desc_def)

lemma length_filter_order_desc: "length (filter P (order_desc rows)) = length (filter P rows)"
  by (simp add: order_desc_def filter_sort flip: rev_filter)

lemma served_simps:
  "faults (served t v w) = tl (faults w)" "tbl_commands (served t v w) = tbl_commands w"
  "tbl_user_profiles (served t v w) = tbl_user_profiles w"
  "console (served t v w) = console w" "alerts (served t v w) = alerts w"
  "requests (served t v w) = requests w @ [(t, v)]"
  by (simp_all add: served_def)

lemma two_answers: "True \<notin> set (take 2 (faults w)) \<Longrightarrow> \<not> fault w \<and> \<not> fault (served t v w)"
  by (cases "faults w"; cases "tl (faults w)") (auto simp add: fault_def served_def)

lemma patch_is_admin:
  "patch_UserProfile (no_UserProfile_Update\<lparr>usr_is_admin := Some b\<rparr>) p = p\<lparr>is_admin := b\<rparr>"
  by (simp add: patch_UserProfile_def no_UserProfile_Update_def or_keep_def)

lemma patch_is_admin_now:
  "patch_UserProfile (no_UserProfile_Update\<lparr>usr_is_admin := Some b, usr_updated_at := Some t\<rparr>) p
     = p\<lparr>is_admin := b, updated_at := t\<rparr>"
  by (simp add: patch_UserProfile_def no_UserProfile_Update_def or_keep_def)

lemma patch_is_active:
  "patch_Command (no_Command_Update\<lparr>upd_is_active := Some b\<rparr>) c = c\<lparr>is_active := b\<rparr>"
  by (simp add: patch_Command_def no_Command_Update_def or_keep_def)

lemma patch_is_active_now:
  "patch_Command (no_Command_Update\<lparr>upd_is_active := Some b, upd_updated_at := Some t\<rparr>) c
     = c\<lparr>is_active := b, updated_at := t\<rparr>"
  by (simp add: patch_Command_def no_Command_Update_def or_keep_def)

lemma fetchData_tables:
  "tbl_commands (snd (fetchData (s, w))) = tbl_commands w"
  "tbl_user_profiles (snd (fetchData (s, w))) = tbl_user_profiles w"
  by (simp_all add: fetchData_def select_user_profiles_def select_commands_def
      console_error_def served_simps)

lemma fetchData_ok:
  assumes "\<not> fault w" "\<not> fault (served ''user_profiles'' Select w)"
  shows "fst (fetchData (s, w)) =
     s\<lparr>users := order_desc (tbl_user_profiles w), commands := order_desc (tbl_commands w),
       stats := \<lparr>totalUsers = int (length (tbl_user_profiles w)),
                  totalCommands = int (length (tbl_commands w)),
                  activeCommands = int (length (filter is_active (tbl_commands w))),
                  adminUsers = int (length (filter is_admin (tbl_user_profiles w)))\<rparr>,
       loading := False\<rparr>"
  using assms
  by (simp add: fetchData_def select_user_profiles_def select_commands_def served_simps
      length_order_desc length_filter_order_desc)

lemma toggleCommandStatus_ok:
  "\<not> fault w \<Longrightarrow> fst (toggleCommandStatus now x b (s, w)) =
     s\<lparr>commands := map (\<lambda>cmd. if row_id cmd = x then cmd\<lparr>is_active := \<not> b\<rparr> else cmd) (commands s),
       stats := (stats s)\<lparr>activeCommands := activeCommands (stats s) + (if b then - 1 else 1)\<rparr>\<rparr>"
  by (simp add: toggleCommandStatus_def update_commands_def)

section \<open>The derived counts of the administration page\<close>

text \<open>
  Claim C6. When the store holds five commands of which two have \<^verbatim>\<open>is_active = false\<close>
  and the administration page has fetched them, its stats show \<open>activeCommands = 3\<close> and
  \<open>totalCommands = 5\<close>; a successful click on the status toggle of one of the active
  commands brings \<open>activeCommands\<close> to 2 and leaves \<open>totalCommands\<close> at 5.
\<close>

theorem stats_five_commands_two_inactive:
  assumes "length (tbl_commands w) = 5"
    and "length (filter (\<lambda>c. \<not> is_active c) (tbl_commands w)) = 2"
    and "True \<notin> set (take 2 (faults w))"
    and "fetchData (s, w) = (s1, w1)"
    and "cmd \<in> set (commands s1)" and "is_active cmd"
    and "\<not> fault w1"
    and "click_toggleCommandStatus now cmd (s1, w1) = (s2, w2)"
  shows "length (commands s1) = 5 \<and>
         length (filter (\<lambda>c. \<not> is_active c) (commands s1)) = 2 \<and>
         activeCommands (stats s1) = 3 \<and> totalCommands (stats s1) = 5 \<and>
         activeCommands (stats s2) = 2 \<and> totalCommands (stats s2) = 5"
proof -
  have ok: "\<not> fault w" "\<not> fault (served ''user_profiles'' Select w)"
    using two_answers [OF assms(3)] by simp_all
  have s1: "s1 = fst (fetchData (s, w))" using assms(4) by simp
  have "length (filter is_active (tbl_commands w)) +
          length (filter (\<lambda>c. \<not> is_active c) (tbl_commands w)) = length (tbl_commands w)"
    by (rule sum_length_filter_compl)
  then have act: "length (filter is_active (tbl_commands w)) = 3"
    using assms(1,2) by simp
  have s2: "s2 = fst (click_toggleCommandStatus now cmd (s1, w1))" using assms(8) by simp
  have fetched: "length (commands s1) = 5"
    "length (filter (\<lambda>c. \<not> is_active c) (commands s1)) = 2"
    "activeCommands (stats s1) = 3" "totalCommands (stats s1) = 5"
    using assms(1,2) act
    by (simp_all add: s1 fetchData_ok [OF ok] length_order_desc length_filter_order_desc)
  have "activeCommands (stats s2) = 2 \<and> totalCommands (stats s2) = 5"
    using fetched assms(6)
    by (simp add: s2 click_toggleCommandStatus_def toggleCommandStatus_ok [OF assms(7)])
  with fetched show ?thesis by simp
qed

theorem stats_five_commands_two_inactive_witness:
  "length (tbl_commands (ex_world [ex_user ''u1'' True] ex_five [])) = 5 \<and>
   length (filter (\<lambda>c. \<not> is_active c) (tbl_commands (ex_world [ex_user ''u1'' True] ex_five []))) = 2 \<and>
   True \<notin> set (take 2 (faults (ex_world [ex_user ''u1'' True] ex_five []))) \<and>
   ex_command ''c3'' ''system'' True \<in> set (commands (fst ex_fetched)) \<and>
   is_active (ex_command ''c3'' ''system'' True) \<and>
   \<not> fault (snd ex_fetched) \<and>
   activeCommands (stats (fst ex_fetched)) = 3 \<and> totalCommands (stats (fst ex_fetched)) = 5 \<and>
   activeCommands (stats (fst ex_toggled)) = 2 \<and> totalCommands (stats (fst ex_toggled)) = 5"
proof -
  let ?w = "ex_world [ex_user ''u1'' True] ex_five []"
  let ?c = "ex_command ''c3'' ''system'' True"
  have h1: "length (tbl_commands ?w) = 5" by code_simp
  have h2: "length (filter (\<lambda>c. \<not> is_active c) (tbl_commands ?w)) = 2" by code_simp
  have h3: "True \<notin> set (take 2 (faults ?w))" by code_simp
  have h4: "fetchData (Admin_init, ?w) = (fst ex_fetched, snd ex_fetched)"
    by (simp add: ex_fetched_def)
  have h5: "?c \<in> set (commands (fst ex_fetched))" by code_simp
  have h6: "is_active ?c" by code_simp
  have h7: "\<not> fault (snd ex_fetched)" by code_simp
  have h8: "click_toggleCommandStatus ''t1'' ?c (fst ex_fetched, snd ex_fetched)
              = (fst ex_toggled, snd ex_toggled)"
    by (simp add: ex_toggled_def)
  show ?thesis
    using stats_five_commands_two_inactive [OF h1 h2 h3 h4 h5 h6 h7 h8] h1 h2 h3 h5 h6 h7
    by simp
qed

section \<open>The admin flag of a user\<close>

lemma toggleUserAdmin_ok:
  "\<not> fault w \<Longrightarrow> toggleUserAdmin now x b (s, w) =
     (s\<lparr>users := map (\<lambda>user. if row_id user = x then user\<lparr>is_admin := \<not> b\<rparr> else user) (users s)\<rparr>,
      (served ''user_profiles'' Update w)\<lparr>tbl_user_profiles :=
         map (\<lambda>p. if row_id p = x then p\<lparr>is_admin := \<not> b, updated_at := now\<rparr> else p)
           (tbl_user_profiles w)\<rparr>)"
  by (simp add: toggleUserAdmin_def update_user_profiles_def patch_is_admin_now)

text \<open>
  Claim C7, as the code has it. The admin toggle writes the negation of the flag it is
  passed. Two clicks in a row on the toggle of a user, the second click reading the flag
  the first one left in the list, and the update of each click answered without error,
  bring the flag of that user back to what it was: in the list of the page (which is
  the list it started from when ids are distinct) and in the store.
\<close>

theorem toggleUserAdmin_twice:
  assumes "user \<in> set (users s)"
    and "\<not> fault w" and "click_toggleUserAdmin now user (s, w) = (s1, w1)"
    and "\<not> fault w1"
    and "click_toggleUserAdmin now' (user\<lparr>is_admin := \<not> is_admin user\<rparr>) (s1, w1) = (s2, w2)"
  shows "users s1 = map (\<lambda>u. if row_id u = row_id user
                              then u\<lparr>is_admin := \<not> is_admin user\<rparr> else u) (users s) \<and>
         user\<lparr>is_admin := \<not> is_admin user\<rparr> \<in> set (users s1) \<and>
         user \<in> set (users s2) \<and>
         (\<forall>u\<in>set (users s2). row_id u = row_id user \<longrightarrow> is_admin u = is_admin user) \<and>
         (\<forall>p\<in>set (tbl_user_profiles w2). row_id p = row_id user \<longrightarrow> is_admin p = is_admin user) \<and>
         (distinct (map row_id (users s)) \<longrightarrow> users s2 = users s)"
proof -
  let ?x = "row_id user" and ?b = "is_admin user"
  have s1: "users s1 = map (\<lambda>u. if row_id u = ?x then u\<lparr>is_admin := \<not> ?b\<rparr> else u) (users s)"
    and w1: "tbl_user_profiles w1 =
       map (\<lambda>p. if row_id p = ?x then p\<lparr>is_admin := \<not> ?b, updated_at := now\<rparr> else p)
         (tbl_user_profiles w)"
    using assms(3) by (auto simp add: click_toggleUserAdmin_def toggleUserAdmin_ok [OF assms(2)])
  have s2: "users s2 = map (\<lambda>u. if row_id u = ?x then u\<lparr>is_admin := ?b\<rparr> else u) (users s1)"
    and w2: "tbl_user_profiles w2 =
       map (\<lambda>p. if row_id p = ?x then p\<lparr>is_admin := ?b, updated_at := now'\<rparr> else p)
         (tbl_user_profiles w1)"
    using assms(5) by (auto simp add: click_toggleUserAdmin_def toggleUserAdmin_ok [OF assms(4)])
  have twice: "users s2 = map (\<lambda>u. if row_id u = ?x then u\<lparr>is_admin := ?b\<rparr> else u) (users s)"
    by (auto simp add: s2 s1)
  have a: "user\<lparr>is_admin := \<not> ?b\<rparr> \<in> set (users s1)"
    using assms(1) by (force simp add: s1)
  have b: "user \<in> set (users s2)"
    using assms(1) by (force simp add: twice)
  have c: "\<forall>u\<in>set (users s2). row_id u = ?x \<longrightarrow> is_admin u = ?b"
    by (auto simp add: twice)
  have d: "\<forall>p\<in>set (tbl_user_profiles w2). row_id p = ?x \<longrightarrow> is_admin p = ?b"
    by (auto simp add: w2)
  have e: "users s2 = users s" if dist: "distinct (map row_id (users s))"
  proof -
    have inj: "inj_on row_id (set (users s))" using dist by (simp add: distinct_map)
    have "u\<lparr>is_admin := ?b\<rparr> = u" if "u \<in> set (users s)" "row_id u = ?x" for u
    proof -
      have "u = user" using inj that assms(1) by (auto dest: inj_onD)
      then show ?thesis by simp
    qed
    then have "map (\<lambda>u. if row_id u = ?x then u\<lparr>is_admin := ?b\<rparr> else u) (users s) = users s"
      by (intro map_idI) auto
    then show ?thesis by (simp add: twice)
  qed
  from s1 a b c d e show ?thesis by blast
qed

theorem toggleUserAdmin_twice_witness:
  "ex_user ''u2'' False \<in> set (users (fst ex_users_page)) \<and>
   \<not> fault (snd ex_users_page) \<and> \<not> fault (snd ex_promoted) \<and>
   distinct (map row_id (users (fst ex_users_page))) \<and>
   map is_admin (users (fst ex_promoted)) = [True, True] \<and>
   users (fst ex_demoted) = users (fst ex_users_page) \<and>
   map is_admin (tbl_user_profiles (snd ex_demoted)) = [True, False]"
proof -
  let ?u = "ex_user ''u2'' False"
  have u': "?u\<lparr>is_admin := \<not> is_admin ?u\<rparr> = ex_user ''u2'' True"
    by (simp add: ex_user_def)
  have h1: "?u \<in> set (users (fst ex_users_page))" by code_simp
  have h2: "\<not> fault (snd ex_users_page)" by code_simp
  have h3: "click_toggleUserAdmin ''t1'' ?u (fst ex_users_page, snd ex_users_page)
              = (fst ex_promoted, snd ex_promoted)"
    by (simp add: ex_promoted_def)
  have h4: "\<not> fault (snd ex_promoted)" by code_simp
  have h5: "click_toggleUserAdmin ''t2'' (?u\<lparr>is_admin := \<not> is_admin ?u\<rparr>)
              (fst ex_promoted, snd ex_promoted) = (fst ex_demoted, snd ex_demoted)"
    by (simp add: u' ex_demoted_def)
  have h6: "distinct (map row_id (users (fst ex_users_page)))" by code_simp
  have e1: "map is_admin (users (fst ex_promoted)) = [True, True]" by code_simp
  have e2: "map is_admin (tbl_user_profiles (snd ex_demoted)) = [True, False]" by code_simp
  show ?thesis
    using toggleUserAdmin_twice [OF h1 h2 h3 h4 h5] h1 h2 h4 h6 e1 e2 by simp
qed

text \<open>
  The claim as the specification states it, for every two clicks in a row, fails when the
  update of the second click is answered with an error: the first click makes the second
  user an administrator, the second click reads that flag and changes nothing, and the
  user, no administrator at the start, is one in the list and in the store.
\<close>

theorem toggleUserAdmin_twice_counterexample:
  "map is_admin (users (fst ex_users_page_flaky)) = [True, False] \<and>
   map is_admin (tbl_user_profiles (snd ex_users_page_flaky)) = [True, False] \<and>
   ex_user ''u2'' True \<in> set (users (fst ex_flaky_promoted)) \<and>
   map is_admin (users (fst ex_flaky_again)) = [True, True] \<and>
   map is_admin (tbl_user_profiles (snd ex_flaky_again)) = [True, True]"
  by code_simp

section \<open>Requests answered with an error\<close>

lemma console_console_error: "console (console_error m w) = console w @ [m]"
  by (simp add: console_error_def)

text \<open>
  Claim C9. When the request of a command update, of a command status toggle or of a user
  admin toggle is answered with an error, the handler leaves the state of its page as it
  was: the error is caught and written to the console, nothing else.
\<close>

theorem remote_failure_keeps_state:
  "(fst (update_command_single (updates\<lparr>upd_updated_at := Some now\<rparr>) x w) = Inl e \<longrightarrow>
      fst (handleUpdateCommand now x updates (s, w)) = s \<and>
      console (snd (handleUpdateCommand now x updates (s, w)))
        = console w @ [''Error updating command:'']) \<and>
   (fst (update_commands (no_Command_Update\<lparr>upd_is_active := Some (\<not> isActive),
           upd_updated_at := Some now\<rparr>) (Eq x) w) = Inl e \<longrightarrow>
      fst (toggleCommandStatus now x isActive (a, w)) = a \<and>
      console (snd (toggleCommandStatus now x isActive (a, w)))
        = console w @ [''Error updating command status:'']) \<and>
   (fst (update_user_profiles (no_UserProfile_Update\<lparr>usr_is_admin := Some (\<not> isAdmin),
           usr_updated_at := Some now\<rparr>) (Eq x) w) = Inl e \<longrightarrow>
      fst (toggleUserAdmin now x isAdmin (a, w)) = a \<and>
      console (snd (toggleUserAdmin now x isAdmin (a, w)))
        = console w @ [''Error updating user admin status:''])"
proof (intro conjI impI)
  assume "fst (update_command_single (updates\<lparr>upd_updated_at := Some now\<rparr>) x w) = Inl e"
  then show "fst (handleUpdateCommand now x updates (s, w)) = s"
    and "console (snd (handleUpdateCommand now x updates (s, w)))
        = console w @ [''Error updating command:'']"
    by (auto simp add: handleUpdateCommand_def update_command_single_def console_console_error
        served_simps split: prod.splits sum.splits if_splits list.splits)
next
  assume "fst (update_commands (no_Command_Update\<lparr>upd_is_active := Some (\<not> isActive),
           upd_updated_at := Some now\<rparr>) (Eq x) w) = Inl e"
  then show "fst (toggleCommandStatus now x isActive (a, w)) = a"
    and "console (snd (toggleCommandStatus now x isActive (a, w)))
        = console w @ [''Error updating command status:'']"
    by (auto simp add: toggleCommandStatus_def update_commands_def console_console_error
        served_simps split: if_splits)
next
  assume "fst (update_user_profiles (no_UserProfile_Update\<lparr>usr_is_admin := Some (\<not> isAdmin),
           usr_updated_at := Some now\<rparr>) (Eq x) w) = Inl e"
  then show "fst (toggleUserAdmin now x isAdmin (a, w)) = a"
    and "console (snd (toggleUserAdmin now x isAdmin (a, w)))
        = console w @ [''Error updating user admin status:'']"
    by (auto simp add: toggleUserAdmin_def update_user_profiles_def console_console_error
        served_simps split: if_splits)
qed

theorem remote_failure_keeps_state_witness:
  "fst (update_command_single (no_Command_Update\<lparr>upd_name := Some (utf16 ''x''), upd_updated_at := Some ''t1''\<rparr>) ''c1'' ex_failing)
     = Inl ServiceError \<and>
   fst (update_commands (no_Command_Update\<lparr>upd_is_active := Some (\<not> True),
           upd_updated_at := Some ''t1''\<rparr>) (Eq ''c1'') ex_failing) = Inl ServiceError \<and>
   fst (update_user_profiles (no_UserProfile_Update\<lparr>usr_is_admin := Some (\<not> True),
           usr_updated_at := Some ''t1''\<rparr>) (Eq ''c1'') ex_failing) = Inl ServiceError \<and>
   fst (handleUpdateCommand ''t1'' ''c1'' (no_Command_Update\<lparr>upd_name := Some (utf16 ''x'')\<rparr>)
          (ex_catalog, ex_failing)) = ex_catalog \<and>
   fst (toggleCommandStatus ''t1'' ''c1'' True (fst ex_fetched, ex_failing)) = fst ex_fetched \<and>
   fst (toggleUserAdmin ''t1'' ''c1'' True (fst ex_fetched, ex_failing)) = fst ex_fetched"
proof -
  have f: "fault ex_failing" by code_simp
  have h1: "fst (update_command_single (no_Command_Update\<lparr>upd_name := Some (utf16 ''x''), upd_updated_at := Some ''t1''\<rparr>) ''c1'' ex_failing)
     = Inl ServiceError"
    by (simp add: update_command_single_def f)
  have h2: "fst (update_commands (no_Command_Update\<lparr>upd_is_active := Some (\<not> True),
           upd_updated_at := Some ''t1''\<rparr>) (Eq ''c1'') ex_failing) = Inl ServiceError"
    by (simp add: update_commands_def f)
  have h3: "fst (update_user_profiles (no_UserProfile_Update\<lparr>usr_is_admin := Some (\<not> True),
           usr_updated_at := Some ''t1''\<rparr>) (Eq ''c1'') ex_failing) = Inl ServiceError"
    by (simp add: update_user_profiles_def f)
  show ?thesis
    using remote_failure_keeps_state [where updates = "no_Command_Update\<lparr>upd_name := Some (utf16 ''x'')\<rparr>"
        and now = "''t1''" and x = "''c1''" and w = ex_failing and e = ServiceError
        and s = ex_catalog and isActive = True and a = "fst ex_fetched" and isAdmin = True] h1 h2 h3
    by simp
qed

text \<open>
  Claim C10. With nobody signed in, \<^verbatim>\<open>handleAddCommand\<close> does nothing for any form
  data: no request is sent, no row is inserted, and the list of commands and the open
  state of the dialog stay as they were.
\<close>

theorem handleAddCommand_signed_out:
  "handleAddCommand None new_id now d (s, w) = (s, w) \<and>
   requests (snd (handleAddCommand None new_id now d (s, w))) = requests w \<and>
   tbl_commands (snd (handleAddCommand None new_id now d (s, w))) = tbl_commands w \<and>
   commands (fst (handleAddCommand None new_id now d (s, w))) = commands s \<and>
   showAddModal (fst (handleAddCommand None new_id now d (s, w))) = showAddModal s"
  by (simp add: handleAddCommand_def)

section \<open>The category selector and the query together\<close>




section \<open>The count of administrators\<close>

lemma toggleUserAdmin_stats: "stats (fst (toggleUserAdmin now x b (s, w))) = stats s"
  by (simp add: toggleUserAdmin_def update_user_profiles_def)

text \<open>
  Claim C4 at a concrete page. The page has fetched two users, one of them an
  administrator, and shows \<open>adminUsers = 1\<close>. A successful click on the admin toggle of
  the other user sets the flag in the store and in the list of the page, so that both users
  are administrators, and \<open>adminUsers\<close> still is 1: \<^verbatim>\<open>toggleUserAdmin\<close> never calls
  \<^verbatim>\<open>setStats\<close>, unlike \<^verbatim>\<open>toggleCommandStatus\<close> and \<^verbatim>\<open>deleteCommand\<close>.
\<close>

theorem toggleUserAdmin_adminUsers_stale:
  "adminUsers (stats (fst ex_users_fetched)) = 1 \<and>
   map is_admin (users (fst ex_users_fetched)) = [False, True] \<and>
   map is_admin (users (fst ex_users_toggled)) = [True, True] \<and>
   map is_admin (tbl_user_profiles (snd ex_users_toggled)) = [True, True] \<and>
   adminUsers (stats (fst ex_users_toggled)) = 1"
  by code_simp

section \<open>Soft delete\<close>

lemma handleDeleteCommand_ok:
  "\<not> fault w \<Longrightarrow> handleDeleteCommand True x (s, w) =
     (setCommands (filter (\<lambda>cmd. row_id cmd \<noteq> x) (commands s)) s,
      (served ''commands'' Update w)\<lparr>tbl_commands :=
         map (\<lambda>c. if row_id c = x then c\<lparr>is_active := False\<rparr> else c) (tbl_commands w)\<rparr>)"
  by (simp add: handleDeleteCommand_def update_commands_def patch_is_active)

lemma fetchCommands_commands:
  "commands (fst (fetchCommands (s, w))) =
     (if fault w then commands s else order_desc (filter is_active (tbl_commands w)))"
  by (simp add: fetchCommands_def select_active_commands_def setCommands_def)

text \<open>
  Claim C8. A successful soft delete of a stored command from the catalog (confirmed, and
  the update answered without error) removes the command from the list of the catalog page
  and from what it shows; a following fetch of the active commands does not bring it back,
  whether it is answered or not; the row stays in the store with \<^verbatim>\<open>is_active = false\<close>
  and is in the list that the administration page fetches.
\<close>

theorem soft_delete_visibility:
  assumes "cmd \<in> set (tbl_commands w)"
    and "\<not> fault w"
    and "handleDeleteCommand True (row_id cmd) (s, w) = (s1, w1)"
  shows "row_id cmd \<notin> row_id ` set (commands s1) \<and>
         row_id cmd \<notin> row_id ` set (filteredCommands s1) \<and>
         row_id cmd \<notin> row_id ` set (commands (fst (fetchCommands (s1, w1)))) \<and>
         cmd\<lparr>is_active := False\<rparr> \<in> set (tbl_commands w1) \<and>
         (True \<notin> set (take 2 (faults w1)) \<longrightarrow>
            cmd\<lparr>is_active := False\<rparr> \<in> set (commands (fst (fetchData (a, w1)))))"
proof -
  let ?x = "row_id cmd"
  have s1: "s1 = setCommands (filter (\<lambda>c. row_id c \<noteq> ?x) (commands s)) s"
    and w1: "tbl_commands w1 =
       map (\<lambda>c. if row_id c = ?x then c\<lparr>is_active := False\<rparr> else c) (tbl_commands w)"
    using assms(3) by (auto simp add: handleDeleteCommand_ok [OF assms(2)])
  have local: "row_id cmd \<notin> row_id ` set (commands s1)"
    by (auto simp add: s1 setCommands_def)
  have "set (filteredCommands s1) \<subseteq> set (commands s1)"
    using set_filterCommands [of "filter (\<lambda>c. row_id c \<noteq> ?x) (commands s)"]
    by (simp add: s1 setCommands_def)
  with local have shown: "row_id cmd \<notin> row_id ` set (filteredCommands s1)"
    by auto
  have "row_id cmd \<notin> row_id ` set (filter is_active (tbl_commands w1))"
    by (auto simp add: w1)
  with local have refetched: "row_id cmd \<notin> row_id ` set (commands (fst (fetchCommands (s1, w1))))"
    by (simp add: fetchCommands_commands set_order_desc)
  have stored: "cmd\<lparr>is_active := False\<rparr> \<in> set (tbl_commands w1)"
    using assms(1) by (force simp add: w1)
  have "cmd\<lparr>is_active := False\<rparr> \<in> set (commands (fst (fetchData (a, w1))))"
    if "True \<notin> set (take 2 (faults w1))"
  proof -
    have ok: "\<not> fault w1" "\<not> fault (served ''user_profiles'' Select w1)"
      using two_answers [OF that] by simp_all
    show ?thesis using stored by (simp add: fetchData_ok [OF ok] set_order_desc)
  qed
  with local shown refetched stored show ?thesis by blast
qed

theorem soft_delete_visibility_witness:
  "ex_command ''c3'' ''system'' True \<in> set (tbl_commands ex_catalog_world) \<and>
   ex_command ''c3'' ''system'' True \<in> set (commands ex_catalog) \<and>
   \<not> fault ex_catalog_world \<and>
   True \<notin> set (take 2 (faults (snd ex_soft_deleted))) \<and>
   map row_id (commands (fst ex_soft_deleted)) = [''c1'', ''c5''] \<and>
   map row_id (commands (fst (fetchCommands ex_soft_deleted))) = [''c5'', ''c1''] \<and>
   ex_command ''c3'' ''system'' False
     \<in> set (commands (fst (fetchData (Admin_init, snd ex_soft_deleted))))"
proof -
  let ?c = "ex_command ''c3'' ''system'' True"
  have c': "?c\<lparr>is_active := False\<rparr> = ex_command ''c3'' ''system'' False"
    by (simp add: ex_command_def)
  have h1: "?c \<in> set (tbl_commands ex_catalog_world)" by code_simp
  have h2: "\<not> fault ex_catalog_world" by code_simp
  have h3: "handleDeleteCommand True (row_id ?c) (ex_catalog, ex_catalog_world)
              = (fst ex_soft_deleted, snd ex_soft_deleted)"
    by (simp add: ex_soft_deleted_def ex_command_def)
  have h4: "True \<notin> set (take 2 (faults (snd ex_soft_deleted)))" by code_simp
  have e1: "?c \<in> set (commands ex_catalog)" by code_simp
  have e2: "map row_id (commands (fst ex_soft_deleted)) = [''c1'', ''c5'']" by code_simp
  have e3: "map row_id (commands (fst (fetchCommands ex_soft_deleted))) = [''c5'', ''c1'']"
    by code_simp
  show ?thesis
    using soft_delete_visibility [OF h1 h2 h3, of Admin_init] h1 h2 h4 e1 e2 e3 by (simp add: c')
qed

section \<open>Database reset\<close>

lemma resetDatabase_declined:
  "\<not> confirm1 \<or> \<not> confirm2 \<or> typed \<noteq> Some ''RESET'' \<Longrightarrow>
     resetDatabase user confirm1 confirm2 typed (s, w) = (s, w)"
  by (auto simp add: resetDatabase_def)

lemma resetDatabase_ok:
  assumes "\<not> fault w" and "\<not> fault (served ''commands'' Delete w)"
  shows "tbl_commands (snd (resetDatabase (Some operator) True True (Some ''RESET'') (s, w)))
           = filter (\<lambda>c. row_id c = nil_uuid) (tbl_commands w)"
    and "tbl_user_profiles (snd (resetDatabase (Some operator) True True (Some ''RESET'') (s, w)))
           = map (\<lambda>p. if row_id p \<noteq> operator then p\<lparr>is_admin := False\<rparr> else p)
               (tbl_user_profiles w)"
proof -
  let ?w1 = "(served ''commands'' Delete w)
               \<lparr>tbl_commands := filter (\<lambda>c. row_id c = nil_uuid) (tbl_commands w)\<rparr>"
  let ?w2 = "(served ''user_profiles'' Update ?w1)\<lparr>tbl_user_profiles :=
              map (\<lambda>p. if row_id p \<noteq> operator then p\<lparr>is_admin := False\<rparr> else p)
                (tbl_user_profiles w)\<rparr>"
  have d: "delete_commands (Neq nil_uuid) w = (Inr (), ?w1)"
    using assms(1) by (simp add: delete_commands_def)
  have f1: "\<not> fault ?w1" using assms(2) by (simp add: fault_def)
  have u: "update_user_profiles (no_UserProfile_Update\<lparr>usr_is_admin := Some False\<rparr>)
             (Neq operator) ?w1 = (Inr (), ?w2)"
    using f1 by (simp add: update_user_profiles_def patch_is_admin served_simps)
  have r: "resetDatabase (Some operator) True True (Some ''RESET'') (s, w) =
     fetchData (s, alert ''Database reset successfully!'' ?w2)"
    by (simp add: resetDatabase_def d u)
  show "tbl_commands (snd (resetDatabase (Some operator) True True (Some ''RESET'') (s, w)))
           = filter (\<lambda>c. row_id c = nil_uuid) (tbl_commands w)"
    by (simp add: r fetchData_tables alert_def served_simps)
  show "tbl_user_profiles (snd (resetDatabase (Some operator) True True (Some ''RESET'') (s, w)))
           = map (\<lambda>p. if row_id p \<noteq> operator then p\<lparr>is_admin := False\<rparr> else p)
               (tbl_user_profiles w)"
    by (simp add: r fetchData_tables alert_def served_simps)
qed

text \<open>
  Claim C1, as the code has it. When the operator is signed in, accepts both
  confirmations and types \<^verbatim>\<open>RESET\<close>, and the delete and the update are both answered
  without error, then no command row with an id other than the all-zero id of the delete
  filter is left in the store, and the admin flag is cleared on every user but the
  operator. When a confirmation is declined or the prompt is answered with anything else
  (or cancelled), the handler sends no request and leaves the page and the world as they
  were.
\<close>

theorem resetDatabase_confirmed_or_nothing:
  "(user = Some operator \<and> confirm1 \<and> confirm2 \<and> typed = Some ''RESET'' \<and>
    True \<notin> set (take 2 (faults w)) \<longrightarrow>
      filter (\<lambda>c. row_id c \<noteq> nil_uuid)
        (tbl_commands (snd (resetDatabase user confirm1 confirm2 typed (s, w)))) = [] \<and>
      tbl_user_profiles (snd (resetDatabase user confirm1 confirm2 typed (s, w))) =
        map (\<lambda>p. if row_id p \<noteq> operator then p\<lparr>is_admin := False\<rparr> else p)
          (tbl_user_profiles w)) \<and>
   (\<not> confirm1 \<or> \<not> confirm2 \<or> typed \<noteq> Some ''RESET'' \<longrightarrow>
      resetDatabase user confirm1 confirm2 typed (s, w) = (s, w))"
proof (intro conjI impI)
  assume h: "user = Some operator \<and> confirm1 \<and> confirm2 \<and> typed = Some ''RESET'' \<and>
    True \<notin> set (take 2 (faults w))"
  then have ok: "\<not> fault w" "\<not> fault (served ''commands'' Delete w)"
    using two_answers [of w] by simp_all
  have r: "resetDatabase user confirm1 confirm2 typed (s, w) =
      resetDatabase (Some operator) True True (Some ''RESET'') (s, w)"
    using h by simp
  show "filter (\<lambda>c. row_id c \<noteq> nil_uuid)
        (tbl_commands (snd (resetDatabase user confirm1 confirm2 typed (s, w)))) = []"
    by (simp add: r resetDatabase_ok [OF ok])
  show "tbl_user_profiles (snd (resetDatabase user confirm1 confirm2 typed (s, w))) =
        map (\<lambda>p. if row_id p \<noteq> operator then p\<lparr>is_admin := False\<rparr> else p)
          (tbl_user_profiles w)"
    by (simp add: r resetDatabase_ok [OF ok])
next
  assume "\<not> confirm1 \<or> \<not> confirm2 \<or> typed \<noteq> Some ''RESET''"
  then show "resetDatabase user confirm1 confirm2 typed (s, w) = (s, w)"
    by (rule resetDatabase_declined)
qed

theorem resetDatabase_confirmed_or_nothing_witness:
  "True \<notin> set (take 2 (faults ex_reset_ok_world)) \<and>
   tbl_commands (snd (resetDatabase (Some ''u1'') True True (Some ''RESET'')
     (Admin_init, ex_reset_ok_world))) = [] \<and>
   tbl_user_profiles (snd (resetDatabase (Some ''u1'') True True (Some ''RESET'')
     (Admin_init, ex_reset_ok_world))) = [ex_user ''u1'' True, ex_user ''u2'' False] \<and>
   Some ''reset'' \<noteq> Some ''RESET'' \<and>
   resetDatabase (Some ''u1'') True True (Some ''reset'') (Admin_init, ex_reset_ok_world)
     = (Admin_init, ex_reset_ok_world)"
proof -
  have h: "True \<notin> set (take 2 (faults ex_reset_ok_world))" by code_simp
  have e1: "tbl_commands (snd (resetDatabase (Some ''u1'') True True (Some ''RESET'')
     (Admin_init, ex_reset_ok_world))) = []" by code_simp
  have e2: "map (\<lambda>p. if row_id p \<noteq> ''u1'' then p\<lparr>is_admin := False\<rparr> else p)
          (tbl_user_profiles ex_reset_ok_world) = [ex_user ''u1'' True, ex_user ''u2'' False]"
    by code_simp
  show ?thesis
    using resetDatabase_confirmed_or_nothing [where user = "Some ''u1''" and operator = "''u1''"
        and ?confirm1.0 = True and ?confirm2.0 = True and typed = "Some ''RESET''"
        and w = ex_reset_ok_world and s = Admin_init]
      resetDatabase_confirmed_or_nothing [where user = "Some ''u1''" and operator = "''u1''"
        and ?confirm1.0 = True and ?confirm2.0 = True and typed = "Some ''reset''"
        and w = ex_reset_ok_world and s = Admin_init]
      h e1 e2
    by simp
qed

text \<open>
  The claim as the specification states it fails in a world where the delete is answered
  and the update of the users is not, and where a command carries the all-zero id: after
  the confirmed reset that command is still stored and the second user still is an
  administrator.
\<close>

theorem resetDatabase_counterexample:
  "faults ex_reset_world = [False, True] \<and>
   map row_id (tbl_commands ex_reset_world) = [''c1'', nil_uuid] \<and>
   map is_admin (tbl_user_profiles ex_reset_world) = [True, True] \<and>
   map row_id (tbl_commands (snd (resetDatabase (Some ''u1'') True True (Some ''RESET'')
     (Admin_init, ex_reset_world)))) = [nil_uuid] \<and>
   map is_admin (tbl_user_profiles (snd (resetDatabase (Some ''u1'') True True (Some ''RESET'')
     (Admin_init, ex_reset_world)))) = [True, True]"
  by code_simp

end
